theory Spec2Isabelle
  imports Complex_Main "HOL-Library.Char_ord" "HOL-Library.List_Lexorder"
begin

section \<open>The observation store\<close>

text \<open>
  The two PHP endpoints read two tables.  A row of \<^verbatim>\<open>temperature_observations\<close> and
  a row of \<^verbatim>\<open>census_tracts\<close> are records; a table is the list of its rows.
  Timestamps are counted in microseconds (the resolution of a PostgreSQL
  \<^verbatim>\<open>timestamp\<close>), temperatures are real numbers: rounding errors of binary floating
  point are not modelled.  All columns that the queries read are taken to be non-null.
\<close>

record observation =
  obs_tract_id :: string
  observed_at :: int
  temperature_f :: real

record census_tract =
  tract_id :: string
  tract_name :: string
  elderly_65plus :: int

type_synonym joined = "observation \<times> census_tract"

text \<open>\<^verbatim>\<open>FROM temperature_observations t INNER JOIN census_tracts c ON t.tract_id = c.tract_id\<close>\<close>

definition inner_join :: "observation list \<Rightarrow> census_tract list \<Rightarrow> joined list" where
  "inner_join obs cs =
     concat (map (\<lambda>t. map (\<lambda>c. (t, c)) (filter (\<lambda>c. obs_tract_id t = tract_id c) cs)) obs)"

text \<open>\<^verbatim>\<open>c.tract_id LIKE '36061%'\<close>\<close>

definition like_36061 :: "string \<Rightarrow> bool" where
  "like_36061 s = (take 5 s = ''36061'')"

text \<open>\<^verbatim>\<open>WHERE c.tract_id LIKE '36061%' AND c.elderly_65plus > 0\<close>: the residential filter.\<close>

definition residential :: "joined \<Rightarrow> bool" where
  "residential r = (like_36061 (tract_id (snd r)) \<and> elderly_65plus (snd r) > 0)"

definition residential_rows :: "observation list \<Rightarrow> census_tract list \<Rightarrow> joined list" where
  "residential_rows obs cs = filter residential (inner_join obs cs)"

subsection \<open>SQL aggregates\<close>

text \<open>
  An aggregate over no rows is NULL, here \<open>None\<close>.  The endpoint connects with the
  \<^verbatim>\<open>pgsql:\<close> driver and its queries use the PostgreSQL casts \<^verbatim>\<open>::timestamp\<close> and
  \<^verbatim>\<open>::float\<close>, so the aggregates are PostgreSQL's: \<^verbatim>\<open>STDDEV\<close> is the historical alias
  of \<^verbatim>\<open>stddev_samp\<close>, the sample standard deviation, which is NULL for fewer than two
  input rows.
\<close>

definition sql_MAX :: "('a::linorder) list \<Rightarrow> 'a option" where
  "sql_MAX xs = (case xs of [] \<Rightarrow> None | x # ys \<Rightarrow> Some (fold max ys x))"

definition sql_MIN :: "('a::linorder) list \<Rightarrow> 'a option" where
  "sql_MIN xs = (case xs of [] \<Rightarrow> None | x # ys \<Rightarrow> Some (fold min ys x))"

definition sql_AVG :: "real list \<Rightarrow> real option" where
  "sql_AVG xs = (if xs = [] then None else Some (sum_list xs / real (length xs)))"

definition sql_STDDEV :: "real list \<Rightarrow> real option" where
  "sql_STDDEV xs =
     (if length xs < 2 then None
      else let avg = sum_list xs / real (length xs)
           in Some (sqrt (sum_list (map (\<lambda>x. (x - avg)\<^sup>2) xs) / real (length xs - 1))))"

text \<open>PHP \<^verbatim>\<open>floatval\<close> of a fetched column: NULL becomes 0.\<close>

definition floatval :: "real option \<Rightarrow> real" where
  "floatval v = (case v of None \<Rightarrow> 0 | Some x \<Rightarrow> x)"

section \<open>get\_risk\_statistics.php\<close>

subsection \<open>1. Latest collection timestamp\<close>

definition latest_time :: "observation list \<Rightarrow> census_tract list \<Rightarrow> int option" where
  "latest_time obs cs = sql_MAX (map (\<lambda>r. observed_at (fst r)) (residential_rows obs cs))"

subsection \<open>2. Historic baseline\<close>

definition historic_temps :: "observation list \<Rightarrow> census_tract list \<Rightarrow> real list" where
  "historic_temps obs cs = map (\<lambda>r. temperature_f (fst r)) (residential_rows obs cs)"

definition historicMean :: "observation list \<Rightarrow> census_tract list \<Rightarrow> real" where
  "historicMean obs cs = floatval (sql_AVG (historic_temps obs cs))"

definition historicStdDev :: "observation list \<Rightarrow> census_tract list \<Rightarrow> real" where
  "historicStdDev obs cs = floatval (sql_STDDEV (historic_temps obs cs))"

subsection \<open>3. Current temperature distribution\<close>

text \<open>\<^verbatim>\<open>interval '1 minute'\<close> in microseconds.\<close>

definition one_minute :: int where
  "one_minute = 60000000"

record current_row =
  cr_tract_id :: string
  cr_temperature_f :: real
  elderly_count :: int
  cr_tract_name :: string

definition in_window :: "int \<Rightarrow> joined \<Rightarrow> bool" where
  "in_window latest r =
     (observed_at (fst r) \<ge> latest - one_minute \<and> observed_at (fst r) \<le> latest + one_minute)"

definition window_rows :: "observation list \<Rightarrow> census_tract list \<Rightarrow> int \<Rightarrow> joined list" where
  "window_rows obs cs latest =
     filter (\<lambda>r. in_window latest r \<and> residential r) (inner_join obs cs)"

definition currentData :: "observation list \<Rightarrow> census_tract list \<Rightarrow> int \<Rightarrow> current_row list" where
  "currentData obs cs latest =
     map (\<lambda>r. \<lparr> cr_tract_id = obs_tract_id (fst r),
                cr_temperature_f = temperature_f (fst r),
                elderly_count = elderly_65plus (snd r),
                cr_tract_name = tract_name (snd r) \<rparr>)
         (window_rows obs cs latest)"

text \<open>
  Errors as values.  \<open>NoTemperatureData\<close> is the \<^verbatim>\<open>success: false\<close> response of the
  null check; the other two are what PHP 8 throws for a division by \<^verbatim>\<open>count([])\<close> and
  for \<^verbatim>\<open>min([])\<close> or \<^verbatim>\<open>max([])\<close>.
\<close>

datatype error = NoTemperatureData | DivisionByZeroError | ValueError

definition array_sum :: "real list \<Rightarrow> real" where
  "array_sum xs = fold (\<lambda>x s. s + x) xs 0"

definition php_mean :: "real list \<Rightarrow> error + real" where
  "php_mean xs = (if length xs = 0 then Inl DivisionByZeroError
                  else Inr (array_sum xs / real (length xs)))"

definition php_max :: "('a::linorder) list \<Rightarrow> error + 'a" where
  "php_max xs = (case xs of [] \<Rightarrow> Inl ValueError | x # ys \<Rightarrow> Inr (fold max ys x))"

definition php_min :: "('a::linorder) list \<Rightarrow> error + 'a" where
  "php_min xs = (case xs of [] \<Rightarrow> Inl ValueError | x # ys \<Rightarrow> Inr (fold min ys x))"

record snapshot_stats =
  ss_mean :: real
  ss_stdDev :: real
  ss_minTemp :: real
  ss_maxTemp :: real

definition current_statistics :: "current_row list \<Rightarrow> error + snapshot_stats" where
  "current_statistics rows =
     (let temperatures = map cr_temperature_f rows in
      (case php_mean temperatures of Inl e \<Rightarrow> Inl e | Inr mean \<Rightarrow>
        (let squaredDiffs = map (\<lambda>temp. (temp - mean)\<^sup>2) temperatures;
             variance = array_sum squaredDiffs / real (length squaredDiffs);
             stdDev = sqrt variance
         in (case php_min temperatures of Inl e \<Rightarrow> Inl e | Inr minTemp \<Rightarrow>
            (case php_max temperatures of Inl e \<Rightarrow> Inl e | Inr maxTemp \<Rightarrow>
              Inr \<lparr> ss_mean = mean, ss_stdDev = stdDev,
                    ss_minTemp = minTemp, ss_maxTemp = maxTemp \<rparr>)))))"

subsection \<open>4. Classification of the current tracts\<close>

datatype tier = extreme | very_high | high | elevated

text \<open>A PHP array \<^verbatim>\<open>['extreme' => ['count' => 0, 'elderly' => 0], ...]\<close>.\<close>

record cell =
  count :: nat
  elderly :: int

type_synonym tier_table = "tier \<Rightarrow> cell"

definition empty_table :: tier_table where
  "empty_table = (\<lambda>_. \<lparr> count = 0, elderly = 0 \<rparr>)"

definition bump :: "tier_table \<Rightarrow> tier \<Rightarrow> int \<Rightarrow> tier_table" where
  "bump tbl k e = tbl(k := \<lparr> count = count (tbl k) + 1, elderly = elderly (tbl k) + e \<rparr>)"

record classification =
  heatDeviation :: tier_table
  coldDeviation :: tier_table
  heatVulnerability :: tier_table
  coldVulnerability :: tier_table

definition initial_classification :: classification where
  "initial_classification =
     \<lparr> heatDeviation = empty_table, coldDeviation = empty_table,
       heatVulnerability = empty_table, coldVulnerability = empty_table \<rparr>"

text \<open>\<^verbatim>\<open>($historicStdDev > 0) ? ($temp - $historicMean) / $historicStdDev : 0\<close>\<close>

definition zScore :: "real \<Rightarrow> real \<Rightarrow> real \<Rightarrow> real" where
  "zScore hMean hStdDev temp = (if hStdDev > 0 then (temp - hMean) / hStdDev else 0)"

text \<open>\<^verbatim>\<open>($maxElderly > 0) ? $elderly / $maxElderly : 0\<close>\<close>

definition elderlyScore :: "int \<Rightarrow> int \<Rightarrow> real" where
  "elderlyScore maxElderly e = (if maxElderly > 0 then real_of_int e / real_of_int maxElderly else 0)"

text \<open>The \<^verbatim>\<open>if / elseif\<close> chain on the z-score (or its absolute value), highest first.\<close>

definition deviation_tier :: "real \<Rightarrow> tier option" where
  "deviation_tier z =
     (if z \<ge> 2.0 then Some extreme
      else if z \<ge> 1.5 then Some very_high
      else if z \<ge> 1.0 then Some high
      else if z \<ge> 0.5 then Some elevated
      else None)"

text \<open>The \<^verbatim>\<open>if / elseif\<close> chain on the composite risk score, highest first.\<close>

definition vulnerability_tier :: "real \<Rightarrow> tier option" where
  "vulnerability_tier riskScore =
     (if riskScore \<ge> 1.5 then Some extreme
      else if riskScore \<ge> 1.2 then Some very_high
      else if riskScore \<ge> 0.9 then Some high
      else if riskScore \<ge> 0.5 then Some elevated
      else None)"

definition riskScore :: "real \<Rightarrow> real \<Rightarrow> real" where
  "riskScore z es = (z * 0.6) + (es * 0.4)"

definition bump_opt :: "tier_table \<Rightarrow> tier option \<Rightarrow> int \<Rightarrow> tier_table" where
  "bump_opt tbl k e = (case k of None \<Rightarrow> tbl | Some t \<Rightarrow> bump tbl t e)"

text \<open>One pass of the body of \<^verbatim>\<open>foreach ($currentData as $tract)\<close>.\<close>

definition classify_tract ::
  "real \<Rightarrow> real \<Rightarrow> int \<Rightarrow> current_row \<Rightarrow> classification \<Rightarrow> classification" where
  "classify_tract hMean hStdDev maxElderly tract st =
     (let temp = cr_temperature_f tract;
          e = elderly_count tract;
          z = zScore hMean hStdDev temp;
          es = elderlyScore maxElderly e;
          st1 = (if z \<ge> 0.5 then
                   st\<lparr> heatDeviation := bump_opt (heatDeviation st) (deviation_tier z) e,
                       heatVulnerability :=
                         bump_opt (heatVulnerability st) (vulnerability_tier (riskScore z es)) e \<rparr>
                 else st)
      in if z \<le> - 0.5 then
           let absZScore = \<bar>z\<bar> in
           st1\<lparr> coldDeviation := bump_opt (coldDeviation st1) (deviation_tier absZScore) e,
                coldVulnerability :=
                  bump_opt (coldVulnerability st1) (vulnerability_tier (riskScore absZScore es)) e \<rparr>
         else st1)"

definition classify_all ::
  "real \<Rightarrow> real \<Rightarrow> int \<Rightarrow> current_row list \<Rightarrow> classification" where
  "classify_all hMean hStdDev maxElderly rows =
     fold (classify_tract hMean hStdDev maxElderly) rows initial_classification"

subsection \<open>5. Tract-level cumulative data\<close>

text \<open>
  \<^verbatim>\<open>(t.temperature_f - $historicMean) / NULLIF($historicStdDev, 0)\<close>: NULL when the
  baseline deviation is 0.
\<close>

definition sql_z :: "real \<Rightarrow> real \<Rightarrow> real \<Rightarrow> real option" where
  "sql_z hMean hStdDev t = (if hStdDev = 0 then None else Some ((t - hMean) / hStdDev))"

text \<open>\<^verbatim>\<open>CASE WHEN z >= 0.5 THEN z ELSE 0 END\<close>; a NULL condition takes the ELSE branch.\<close>

definition heat_case :: "real \<Rightarrow> real \<Rightarrow> real \<Rightarrow> real" where
  "heat_case hMean hStdDev t =
     (case sql_z hMean hStdDev t of None \<Rightarrow> 0 | Some z \<Rightarrow> if z \<ge> 0.5 then z else 0)"

text \<open>\<^verbatim>\<open>CASE WHEN z <= -0.5 THEN ABS(z) ELSE 0 END\<close>\<close>

definition cold_case :: "real \<Rightarrow> real \<Rightarrow> real \<Rightarrow> real" where
  "cold_case hMean hStdDev t =
     (case sql_z hMean hStdDev t of None \<Rightarrow> 0 | Some z \<Rightarrow> if z \<le> - 0.5 then \<bar>z\<bar> else 0)"

text \<open>The conditions of \<^verbatim>\<open>COUNT(CASE WHEN ... THEN 1 END)\<close>: a NULL is not counted.\<close>

definition heat_hit :: "real \<Rightarrow> real \<Rightarrow> real \<Rightarrow> bool" where
  "heat_hit hMean hStdDev t =
     (case sql_z hMean hStdDev t of None \<Rightarrow> False | Some z \<Rightarrow> z \<ge> 0.5)"

definition cold_hit :: "real \<Rightarrow> real \<Rightarrow> real \<Rightarrow> bool" where
  "cold_hit hMean hStdDev t =
     (case sql_z hMean hStdDev t of None \<Rightarrow> False | Some z \<Rightarrow> z \<le> - 0.5)"

text \<open>\<^verbatim>\<open>COUNT(...)::float / NULLIF(COUNT(*), 0)\<close>\<close>

definition frequency :: "nat \<Rightarrow> nat \<Rightarrow> real option" where
  "frequency hits n = (if n = 0 then None else Some (real hits / real n))"

type_synonym group_key = "string \<times> string \<times> int"

text \<open>\<^verbatim>\<open>GROUP BY t.tract_id, c.tract_name, c.elderly_65plus\<close>\<close>

definition group_key :: "joined \<Rightarrow> group_key" where
  "group_key r = (obs_tract_id (fst r), tract_name (snd r), elderly_65plus (snd r))"

definition group_by :: "(joined \<Rightarrow> 'k) \<Rightarrow> joined list \<Rightarrow> ('k \<times> joined list) list" where
  "group_by key rows =
     map (\<lambda>k. (k, filter (\<lambda>r. key r = k) rows)) (remdups (map key rows))"

text \<open>\<^verbatim>\<open>WHERE ... GROUP BY ... HAVING COUNT(*) >= 10 ORDER BY t.tract_id\<close>\<close>

definition cumulative_groups ::
  "observation list \<Rightarrow> census_tract list \<Rightarrow> (group_key \<times> joined list) list" where
  "cumulative_groups obs cs =
     sort_key (\<lambda>g. fst (fst g))
       (filter (\<lambda>g. length (snd g) \<ge> 10) (group_by group_key (residential_rows obs cs)))"

record tract_row =
  tr_tract_id :: string
  tr_tract_name :: string
  tr_elderly_65plus :: int
  total_observations :: nat
  avg_temp :: "real option"
  max_temp :: "real option"
  min_temp :: "real option"
  cumulative_heat_risk :: "real option"
  cumulative_cold_risk :: "real option"
  heat_frequency :: "real option"
  cold_frequency :: "real option"

definition group_temps :: "'k \<times> joined list \<Rightarrow> real list" where
  "group_temps g = map (\<lambda>r. temperature_f (fst r)) (snd g)"

text \<open>The SELECT list of the cumulative query, for one group.\<close>

definition cumulative_row :: "real \<Rightarrow> real \<Rightarrow> group_key \<times> joined list \<Rightarrow> tract_row" where
  "cumulative_row hMean hStdDev g =
     (let temps = group_temps g in
      \<lparr> tr_tract_id = fst (fst g),
        tr_tract_name = fst (snd (fst g)),
        tr_elderly_65plus = snd (snd (fst g)),
        total_observations = length temps,
        avg_temp = sql_AVG temps,
        max_temp = sql_MAX temps,
        min_temp = sql_MIN temps,
        cumulative_heat_risk = sql_AVG (map (heat_case hMean hStdDev) temps),
        cumulative_cold_risk = sql_AVG (map (cold_case hMean hStdDev) temps),
        heat_frequency = frequency (length (filter (heat_hit hMean hStdDev) temps)) (length temps),
        cold_frequency = frequency (length (filter (cold_hit hMean hStdDev) temps)) (length temps) \<rparr>)"

definition tractCumulativeData ::
  "real \<Rightarrow> real \<Rightarrow> observation list \<Rightarrow> census_tract list \<Rightarrow> tract_row list" where
  "tractCumulativeData hMean hStdDev obs cs =
     map (cumulative_row hMean hStdDev) (cumulative_groups obs cs)"

subsection \<open>6. Aggregate cumulative statistics\<close>

text \<open>
  The inner query: \<^verbatim>\<open>GROUP BY t.tract_id, c.elderly_65plus HAVING COUNT(*) >= 10\<close>, one
  row per group with the elderly count and the cumulative risk (of heat or of cold).
\<close>

definition stats_groups ::
  "observation list \<Rightarrow> census_tract list \<Rightarrow> ((string \<times> int) \<times> joined list) list" where
  "stats_groups obs cs =
     filter (\<lambda>g. length (snd g) \<ge> 10)
       (group_by (\<lambda>r. (obs_tract_id (fst r), elderly_65plus (snd r))) (residential_rows obs cs))"

definition heat_stats ::
  "real \<Rightarrow> real \<Rightarrow> observation list \<Rightarrow> census_tract list \<Rightarrow> (int \<times> real option) list" where
  "heat_stats hMean hStdDev obs cs =
     map (\<lambda>g. (snd (fst g), sql_AVG (map (heat_case hMean hStdDev) (group_temps g))))
       (stats_groups obs cs)"

definition cold_stats ::
  "real \<Rightarrow> real \<Rightarrow> observation list \<Rightarrow> census_tract list \<Rightarrow> (int \<times> real option) list" where
  "cold_stats hMean hStdDev obs cs =
     map (\<lambda>g. (snd (fst g), sql_AVG (map (cold_case hMean hStdDev) (group_temps g))))
       (stats_groups obs cs)"

text \<open>\<^verbatim>\<open>risk >= lo\<close> and \<^verbatim>\<open>risk >= lo AND risk < hi\<close>; false for a NULL risk.\<close>

definition risk_ge :: "real \<Rightarrow> int \<times> real option \<Rightarrow> bool" where
  "risk_ge lo r = (case snd r of None \<Rightarrow> False | Some x \<Rightarrow> x \<ge> lo)"

definition risk_between :: "real \<Rightarrow> real \<Rightarrow> int \<times> real option \<Rightarrow> bool" where
  "risk_between lo hi r = (case snd r of None \<Rightarrow> False | Some x \<Rightarrow> x \<ge> lo \<and> x < hi)"

text \<open>
  \<^verbatim>\<open>intval(COUNT(CASE WHEN c THEN 1 END) ?? 0)\<close> and
  \<^verbatim>\<open>intval(SUM(CASE WHEN c THEN elderly_65plus ELSE 0 END) ?? 0)\<close>: the sum over no rows is
  NULL and is reported as 0.
\<close>

definition count_when :: "('a \<Rightarrow> bool) \<Rightarrow> 'a list \<Rightarrow> int" where
  "count_when c rows = int (length (filter c rows))"

definition sum_elderly_when ::
  "(int \<times> real option \<Rightarrow> bool) \<Rightarrow> (int \<times> real option) list \<Rightarrow> int" where
  "sum_elderly_when c rows = sum_list (map (\<lambda>r. if c r then fst r else 0) rows)"

record cumulative_stats =
  extreme_tracts :: int
  extreme_elderly :: int
  veryhigh_tracts :: int
  veryhigh_elderly :: int
  high_tracts :: int
  high_elderly :: int
  elevated_tracts :: int
  elevated_elderly :: int

definition cumulative_stats_of :: "(int \<times> real option) list \<Rightarrow> cumulative_stats" where
  "cumulative_stats_of rows =
     \<lparr> extreme_tracts = count_when (risk_ge 2.0) rows,
       extreme_elderly = sum_elderly_when (risk_ge 2.0) rows,
       veryhigh_tracts = count_when (risk_between 1.5 2.0) rows,
       veryhigh_elderly = sum_elderly_when (risk_between 1.5 2.0) rows,
       high_tracts = count_when (risk_between 1.0 1.5) rows,
       high_elderly = sum_elderly_when (risk_between 1.0 1.5) rows,
       elevated_tracts = count_when (risk_between 0.5 1.0) rows,
       elevated_elderly = sum_elderly_when (risk_between 0.5 1.0) rows \<rparr>"

subsection \<open>7. Overall statistics\<close>

text \<open>
  The two queries of the key \<^verbatim>\<open>overall\<close>.  The first reads the join with
  \<^verbatim>\<open>WHERE c.tract_id LIKE '36061%'\<close> only, the second the census table with the same
  condition: neither tests \<^verbatim>\<open>elderly_65plus\<close> in its WHERE clause.
\<close>

definition prefix_rows :: "observation list \<Rightarrow> census_tract list \<Rightarrow> joined list" where
  "prefix_rows obs cs = filter (\<lambda>r. like_36061 (tract_id (snd r))) (inner_join obs cs)"

definition prefix_tracts :: "census_tract list \<Rightarrow> census_tract list" where
  "prefix_tracts cs = filter (\<lambda>c. like_36061 (tract_id c)) cs"

text \<open>\<^verbatim>\<open>SUM\<close> over no rows is NULL; \<^verbatim>\<open>intval\<close> of NULL is 0.\<close>

definition sql_SUM :: "int list \<Rightarrow> int option" where
  "sql_SUM xs = (if xs = [] then None else Some (sum_list xs))"

definition intval :: "int option \<Rightarrow> int" where
  "intval v = (case v of None \<Rightarrow> 0 | Some x \<Rightarrow> x)"

record overall =
  ov_total_observations :: int
  ov_total_tracts :: int
  ov_total_tracts_all :: int
  ov_total_tracts_residential :: int
  ov_total_elderly :: int
  ov_data_start :: "int option"
  ov_data_end :: "int option"

text \<open>
  \<^verbatim>\<open>COUNT(*)\<close>, \<^verbatim>\<open>COUNT(DISTINCT t.tract_id)\<close>, \<^verbatim>\<open>MIN(t.observed_at)\<close> and
  \<^verbatim>\<open>MAX(t.observed_at)\<close> of the first query; \<^verbatim>\<open>COUNT(*)\<close>,
  \<^verbatim>\<open>COUNT(CASE WHEN elderly_65plus > 0 THEN 1 END)\<close> and \<^verbatim>\<open>SUM(elderly_65plus)\<close> of the
  second.
\<close>

definition overall_statistics :: "observation list \<Rightarrow> census_tract list \<Rightarrow> overall" where
  "overall_statistics obs cs =
     \<lparr> ov_total_observations = int (length (prefix_rows obs cs)),
       ov_total_tracts = int (length (remdups (map (\<lambda>r. obs_tract_id (fst r)) (prefix_rows obs cs)))),
       ov_total_tracts_all = int (length (prefix_tracts cs)),
       ov_total_tracts_residential = count_when (\<lambda>c. elderly_65plus c > 0) (prefix_tracts cs),
       ov_total_elderly = intval (sql_SUM (map elderly_65plus (prefix_tracts cs))),
       ov_data_start = sql_MIN (map (\<lambda>r. observed_at (fst r)) (prefix_rows obs cs)),
       ov_data_end = sql_MAX (map (\<lambda>r. observed_at (fst r)) (prefix_rows obs cs)) \<rparr>"

subsection \<open>8 and 9. Extremes\<close>

text \<open>
  The all-time maximum and minimum over the residential rows, and the temperature of the
  row that \<^verbatim>\<open>ORDER BY t.temperature_f DESC LIMIT 1\<close> (or \<^verbatim>\<open>ASC\<close>) returns for the
  current window: the largest (smallest) temperature of the window.
\<close>

definition all_time_max_temp :: "observation list \<Rightarrow> census_tract list \<Rightarrow> real option" where
  "all_time_max_temp obs cs = sql_MAX (historic_temps obs cs)"

definition all_time_min_temp :: "observation list \<Rightarrow> census_tract list \<Rightarrow> real option" where
  "all_time_min_temp obs cs = sql_MIN (historic_temps obs cs)"

text \<open>
  The row that \<^verbatim>\<open>WHERE t.temperature_f = (SELECT MAX(...)) ... LIMIT 1\<close> returns, if any.
\<close>

definition allTimeHottestTract :: "observation list \<Rightarrow> census_tract list \<Rightarrow> joined option" where
  "allTimeHottestTract obs cs =
     find (\<lambda>r. Some (temperature_f (fst r)) = all_time_max_temp obs cs) (residential_rows obs cs)"

definition allTimeColdestTract :: "observation list \<Rightarrow> census_tract list \<Rightarrow> joined option" where
  "allTimeColdestTract obs cs =
     find (\<lambda>r. Some (temperature_f (fst r)) = all_time_min_temp obs cs) (residential_rows obs cs)"

definition hottest_temp :: "observation list \<Rightarrow> census_tract list \<Rightarrow> int \<Rightarrow> real option" where
  "hottest_temp obs cs latest =
     sql_MAX (map (\<lambda>r. temperature_f (fst r)) (window_rows obs cs latest))"

definition coldest_temp :: "observation list \<Rightarrow> census_tract list \<Rightarrow> int \<Rightarrow> real option" where
  "coldest_temp obs cs latest =
     sql_MIN (map (\<lambda>r. temperature_f (fst r)) (window_rows obs cs latest))"

subsection \<open>10. The JSON response\<close>

text \<open>PHP \<^verbatim>\<open>round($x, 2)\<close>: to the nearest hundredth, halves away from zero.\<close>

definition round2 :: "real \<Rightarrow> real" where
  "round2 x = (if x \<ge> 0 then real_of_int \<lfloor>x * 100 + 1 / 2\<rfloor> / 100
               else - (real_of_int \<lfloor>- x * 100 + 1 / 2\<rfloor> / 100))"

text \<open>A number with at most two decimal places.\<close>

definition two_decimals :: "real \<Rightarrow> bool" where
  "two_decimals x = (real_of_int \<lfloor>x * 100\<rfloor> = x * 100)"

record current_stats =
  cs_mean_temp :: real
  cs_std_dev :: real
  cs_min_temp :: real
  cs_max_temp :: real
  cs_threshold_2sd_hot :: real
  cs_threshold_2sd_cold :: real

record historic_baseline =
  hb_mean :: real
  hb_stddev :: real
  hb_threshold_2sd_hot :: real
  hb_threshold_2sd_cold :: real

record all_time_extremes =
  ate_max_temp :: real
  ate_min_temp :: real
  ate_range :: real
  ate_hottest_tract_temp :: real
  ate_coldest_tract_temp :: real

record global_averages =
  ga_temperature :: real
  ga_stddev_temp :: real

text \<open>
  The fields of the response that carry numbers and dates computed by the endpoint; the
  tract identifiers and names of the hottest and coldest tracts are left out.
\<close>

record response =
  timestamp :: int
  rp_current_stats :: current_stats
  rp_historic_baseline :: historic_baseline
  rp_all_time_extremes :: all_time_extremes
  heat_deviation :: tier_table
  cold_deviation :: tier_table
  heat_vulnerability :: tier_table
  cold_vulnerability :: tier_table
  cumulative_heat_stats :: cumulative_stats
  cumulative_cold_stats :: cumulative_stats
  rp_overall :: overall
  rp_global_averages :: global_averages
  hottest_tract_temp :: real
  coldest_tract_temp :: real
  tracts :: "tract_row list"

definition json_response ::
  "int \<Rightarrow> snapshot_stats \<Rightarrow> real \<Rightarrow> real \<Rightarrow> real option \<Rightarrow> real option \<Rightarrow>
   joined option \<Rightarrow> joined option \<Rightarrow> classification \<Rightarrow>
   cumulative_stats \<Rightarrow> cumulative_stats \<Rightarrow> overall \<Rightarrow>
   real option \<Rightarrow> real option \<Rightarrow> tract_row list \<Rightarrow> response" where
  "json_response latestTime st hMean hStdDev allMax allMin allHottest allColdest cls
     cumHeat cumCold ov hottest coldest tractData =
     \<lparr> timestamp = latestTime,
       rp_current_stats =
         \<lparr> cs_mean_temp = round2 (ss_mean st),
           cs_std_dev = round2 (ss_stdDev st),
           cs_min_temp = round2 (ss_minTemp st),
           cs_max_temp = round2 (ss_maxTemp st),
           cs_threshold_2sd_hot = round2 (ss_mean st + 2 * ss_stdDev st),
           cs_threshold_2sd_cold = round2 (ss_mean st - 2 * ss_stdDev st) \<rparr>,
       rp_historic_baseline =
         \<lparr> hb_mean = round2 hMean,
           hb_stddev = round2 hStdDev,
           hb_threshold_2sd_hot = round2 (hMean + 2 * hStdDev),
           hb_threshold_2sd_cold = round2 (hMean - 2 * hStdDev) \<rparr>,
       rp_all_time_extremes =
         \<lparr> ate_max_temp = round2 (floatval allMax),
           ate_min_temp = round2 (floatval allMin),
           ate_range = round2 (floatval allMax - floatval allMin),
           ate_hottest_tract_temp =
             round2 (floatval (map_option (\<lambda>r. temperature_f (fst r)) allHottest)),
           ate_coldest_tract_temp =
             round2 (floatval (map_option (\<lambda>r. temperature_f (fst r)) allColdest)) \<rparr>,
       heat_deviation = heatDeviation cls,
       cold_deviation = coldDeviation cls,
       heat_vulnerability = heatVulnerability cls,
       cold_vulnerability = coldVulnerability cls,
       cumulative_heat_stats = cumHeat,
       cumulative_cold_stats = cumCold,
       rp_overall = ov,
       rp_global_averages =
         \<lparr> ga_temperature = round2 hMean, ga_stddev_temp = round2 hStdDev \<rparr>,
       hottest_tract_temp = round2 (floatval hottest),
       coldest_tract_temp = round2 (floatval coldest),
       tracts = tractData \<rparr>"

text \<open>The script after the null check of the latest timestamp.\<close>

definition risk_statistics_at ::
  "observation list \<Rightarrow> census_tract list \<Rightarrow> int \<Rightarrow> error + response" where
  "risk_statistics_at obs cs latestTime =
     (let hMean = historicMean obs cs;
          hStdDev = historicStdDev obs cs;
          rows = currentData obs cs latestTime
      in (case current_statistics rows of Inl e \<Rightarrow> Inl e | Inr st \<Rightarrow>
         (case php_max (map elderly_count rows) of Inl e \<Rightarrow> Inl e | Inr maxElderly \<Rightarrow>
           Inr (json_response latestTime st hMean hStdDev
                  (all_time_max_temp obs cs) (all_time_min_temp obs cs)
                  (allTimeHottestTract obs cs) (allTimeColdestTract obs cs)
                  (classify_all hMean hStdDev maxElderly rows)
                  (cumulative_stats_of (heat_stats hMean hStdDev obs cs))
                  (cumulative_stats_of (cold_stats hMean hStdDev obs cs))
                  (overall_statistics obs cs)
                  (hottest_temp obs cs latestTime) (coldest_temp obs cs latestTime)
                  (tractCumulativeData hMean hStdDev obs cs)))))"

definition get_risk_statistics ::
  "observation list \<Rightarrow> census_tract list \<Rightarrow> error + response" where
  "get_risk_statistics obs cs =
     (case latest_time obs cs of
        None \<Rightarrow> Inl NoTemperatureData
      | Some latestTime \<Rightarrow> risk_statistics_at obs cs latestTime)"

section \<open>get\_latest\_temperatures.php\<close>

text \<open>\<^verbatim>\<open>SELECT MAX(observed_at) as last_update FROM temperature_observations\<close>\<close>

definition last_update :: "observation list \<Rightarrow> int option" where
  "last_update obs = sql_MAX (map observed_at obs)"

text \<open>
  \<^verbatim>\<open>SELECT DISTINCT ON (t.tract_id) ... ORDER BY t.tract_id, t.observed_at DESC\<close>:
  the rows are sorted by tract and, within a tract, from the newest to the oldest; the
  first row of every tract is kept.  The query has no WHERE clause.
\<close>

fun distinct_on :: "('a \<Rightarrow> 'k) \<Rightarrow> 'k list \<Rightarrow> 'a list \<Rightarrow> 'a list" where
  "distinct_on f seen [] = []"
| "distinct_on f seen (x # xs) =
     (if f x \<in> set seen then distinct_on f seen xs else x # distinct_on f (f x # seen) xs)"

definition latest_per_tract :: "observation list \<Rightarrow> census_tract list \<Rightarrow> joined list" where
  "latest_per_tract obs cs =
     distinct_on (\<lambda>r. obs_tract_id (fst r)) []
       (sort_key (\<lambda>r. obs_tract_id (fst r))
          (sort_key (\<lambda>r. - observed_at (fst r)) (inner_join obs cs)))"

text \<open>
  The columns of a data row that the observation record carries (the humidity, the heat
  index, the conditions and the coordinates are copied from the table and play no role;
  the statistic \<^verbatim>\<open>avg_heat_index\<close> is left out with them).
\<close>

record data_row =
  d_tract_id :: string
  d_tract_name :: string
  d_temperature_f :: real
  d_observed_at :: int
  d_elderly_65plus :: int

record statistics =
  st_min_temp :: "real option"
  st_max_temp :: "real option"
  st_avg_temp :: "real option"
  st_total_tracts :: nat

record latest_response =
  lr_last_update :: int
  data_count :: nat
  lr_statistics :: statistics
  data :: "data_row list"

definition latest_data :: "observation list \<Rightarrow> census_tract list \<Rightarrow> data_row list" where
  "latest_data obs cs =
     map (\<lambda>r. \<lparr> d_tract_id = obs_tract_id (fst r),
                d_tract_name = tract_name (snd r),
                d_temperature_f = temperature_f (fst r),
                d_observed_at = observed_at (fst r),
                d_elderly_65plus = elderly_65plus (snd r) \<rparr>)
         (latest_per_tract obs cs)"

text \<open>\<^verbatim>\<open>!empty($temps) ? ... : null\<close>\<close>

definition latest_statistics :: "data_row list \<Rightarrow> statistics" where
  "latest_statistics rows =
     (let temps = map d_temperature_f rows in
      \<lparr> st_min_temp = (if temps \<noteq> [] then Some (fold min (tl temps) (hd temps)) else None),
        st_max_temp = (if temps \<noteq> [] then Some (fold max (tl temps) (hd temps)) else None),
        st_avg_temp = (if temps \<noteq> [] then Some (array_sum temps / real (length temps)) else None),
        st_total_tracts = length rows \<rparr>)"

definition get_latest_temperatures ::
  "observation list \<Rightarrow> census_tract list \<Rightarrow> error + latest_response" where
  "get_latest_temperatures obs cs =
     (case last_update obs of
        None \<Rightarrow> Inl NoTemperatureData
      | Some lastObservationTime \<Rightarrow>
          (let rows = latest_data obs cs in
           Inr \<lparr> lr_last_update = lastObservationTime,
                 data_count = length rows,
                 lr_statistics = latest_statistics rows,
                 data = rows \<rparr>))"

section \<open>The client (the JavaScript of the map page)\<close>

subsection \<open>Statistical functions\<close>

definition calculateStandardDeviation :: "real list \<Rightarrow> real" where
  "calculateStandardDeviation values =
     (if length values = 0 then 0
      else let mean = fold (\<lambda>val sum. sum + val) values 0 / real (length values);
               squaredDiffs = map (\<lambda>val. (val - mean)\<^sup>2) values;
               variance = fold (\<lambda>val sum. sum + val) squaredDiffs 0 / real (length values)
           in sqrt variance)"

definition calculateZScore :: "real \<Rightarrow> real \<Rightarrow> real \<Rightarrow> real" where
  "calculateZScore v mean stdDev = (if stdDev = 0 then 0 else (v - mean) / stdDev)"

subsection \<open>JavaScript numbers\<close>

text \<open>
  A JavaScript division does not fail: a non-zero number divided by zero is an infinity
  and \<^verbatim>\<open>0 / 0\<close> is NaN.  The numbers that the layers read (temperatures, the baseline,
  elderly counts) come from JSON and are finite; the quotients computed from them need
  not be.
\<close>

datatype jsnum = Fin real | PosInf | NegInf | NaN

definition js_div :: "real \<Rightarrow> real \<Rightarrow> jsnum" where
  "js_div a b =
     (if b \<noteq> 0 then Fin (a / b)
      else if a > 0 then PosInf else if a < 0 then NegInf else NaN)"

text \<open>Multiplication by a finite constant.\<close>

fun js_times :: "jsnum \<Rightarrow> real \<Rightarrow> jsnum" where
  "js_times (Fin a) c = Fin (a * c)"
| "js_times PosInf c = (if c > 0 then PosInf else if c < 0 then NegInf else NaN)"
| "js_times NegInf c = (if c > 0 then NegInf else if c < 0 then PosInf else NaN)"
| "js_times NaN c = NaN"

fun js_plus :: "jsnum \<Rightarrow> jsnum \<Rightarrow> jsnum" where
  "js_plus (Fin a) (Fin b) = Fin (a + b)"
| "js_plus NaN y = NaN"
| "js_plus x NaN = NaN"
| "js_plus PosInf NegInf = NaN"
| "js_plus NegInf PosInf = NaN"
| "js_plus PosInf y = PosInf"
| "js_plus x PosInf = PosInf"
| "js_plus NegInf y = NegInf"
| "js_plus x NegInf = NegInf"

fun js_abs :: "jsnum \<Rightarrow> jsnum" where
  "js_abs (Fin a) = Fin \<bar>a\<bar>"
| "js_abs PosInf = PosInf"
| "js_abs NegInf = PosInf"
| "js_abs NaN = NaN"

text \<open>Comparison with a finite constant; every comparison with NaN is false.\<close>

fun js_ge :: "jsnum \<Rightarrow> real \<Rightarrow> bool" where
  "js_ge (Fin a) c = (a \<ge> c)"
| "js_ge PosInf c = True"
| "js_ge NegInf c = False"
| "js_ge NaN c = False"

fun js_le :: "jsnum \<Rightarrow> real \<Rightarrow> bool" where
  "js_le (Fin a) c = (a \<le> c)"
| "js_le PosInf c = False"
| "js_le NegInf c = True"
| "js_le NaN c = False"

subsection \<open>The vulnerability and deviation layers\<close>

record tempData =
  temp_f :: real
  tractId :: string
  elderlyCount :: int

record feature =
  geoid :: string
  Old_Age_65plus :: "real option"

record baseline =
  bl_mean :: real
  bl_stdDev :: real
  loaded :: bool


text \<open>\<^verbatim>\<open>fetchTemperatureData\<close>: the rows of the first endpoint, renamed.\<close>

definition fetchTemperatureData :: "latest_response \<Rightarrow> tempData list" where
  "fetchTemperatureData result =
     map (\<lambda>item. \<lparr> temp_f = d_temperature_f item, tractId = d_tract_id item,
                   elderlyCount = d_elderly_65plus item \<rparr>) (data result)"

text \<open>\<^verbatim>\<open>fetchRiskStatistics\<close>: the baseline is read from \<^verbatim>\<open>global_averages\<close>.\<close>

definition fetchRiskStatistics :: "response \<Rightarrow> baseline" where
  "fetchRiskStatistics d =
     \<lparr> bl_mean = ga_temperature (rp_global_averages d),
       bl_stdDev = ga_stddev_temp (rp_global_averages d),
       loaded = True \<rparr>"

text \<open>\<^verbatim>\<open>f.properties.Old_Age_65plus || 0\<close>\<close>

definition old_age_or_0 :: "feature \<Rightarrow> real" where
  "old_age_or_0 f = (case Old_Age_65plus f of None \<Rightarrow> 0 | Some v \<Rightarrow> v)"

definition grey :: string where
  "grey = ''#d3d3d3''"

text \<open>The z-score of both vulnerability layers: \<^verbatim>\<open>(tempData.temp_f - mean) / stdDev\<close>.\<close>

definition layer_zScore :: "real \<Rightarrow> real \<Rightarrow> real \<Rightarrow> jsnum" where
  "layer_zScore t mean stdDev = js_div (t - mean) stdDev"

definition layer_riskScore :: "jsnum \<Rightarrow> jsnum \<Rightarrow> jsnum" where
  "layer_riskScore z es = js_plus (js_times z 0.6) (js_times es 0.4)"

definition heat_color :: "jsnum \<Rightarrow> string option" where
  "heat_color risk =
     (if js_ge risk 1.5 then Some ''#8B0000''
      else if js_ge risk 1.2 then Some ''#FF4500''
      else if js_ge risk 0.9 then Some ''#FF8C00''
      else if js_ge risk 0.5 then Some ''#FFD700''
      else None)"

definition cold_color :: "jsnum \<Rightarrow> string option" where
  "cold_color risk =
     (if js_ge risk 1.5 then Some ''#00008B''
      else if js_ge risk 1.2 then Some ''#0000CD''
      else if js_ge risk 0.9 then Some ''#4169E1''
      else if js_ge risk 0.5 then Some ''#87CEEB''
      else None)"

text \<open>The \<^verbatim>\<open>style\<close> callback of \<^verbatim>\<open>createHeatVulnerabilityLayerSD\<close>: the fill colour.\<close>

definition heat_vulnerability_style ::
  "real \<Rightarrow> real \<Rightarrow> real \<Rightarrow> tempData list \<Rightarrow> feature \<Rightarrow> string" where
  "heat_vulnerability_style mean stdDev maxElderly temps f =
     (let elderlyCount = old_age_or_0 f in
      case find (\<lambda>d. tractId d = geoid f) temps of
        None \<Rightarrow> grey
      | Some tempData \<Rightarrow>
          (let zScore = layer_zScore (temp_f tempData) mean stdDev in
           if js_ge zScore 0.5 then
             (let elderlyScore = js_div elderlyCount maxElderly;
                  riskScore = layer_riskScore zScore elderlyScore
              in case heat_color riskScore of None \<Rightarrow> grey | Some color \<Rightarrow> color)
           else grey))"

text \<open>The \<^verbatim>\<open>style\<close> callback of \<^verbatim>\<open>createColdVulnerabilityLayerSD\<close>.\<close>

definition cold_vulnerability_style ::
  "real \<Rightarrow> real \<Rightarrow> real \<Rightarrow> tempData list \<Rightarrow> feature \<Rightarrow> string" where
  "cold_vulnerability_style mean stdDev maxElderly temps f =
     (let elderlyCount = old_age_or_0 f in
      case find (\<lambda>d. tractId d = geoid f) temps of
        None \<Rightarrow> grey
      | Some tempData \<Rightarrow>
          (let zScore = layer_zScore (temp_f tempData) mean stdDev in
           if js_le zScore (- 0.5) then
             (let absZScore = js_abs zScore;
                  elderlyScore = js_div elderlyCount maxElderly;
                  riskScore = layer_riskScore absZScore elderlyScore
              in case cold_color riskScore of None \<Rightarrow> grey | Some color \<Rightarrow> color)
           else grey))"


text \<open>
  The \<^verbatim>\<open>style\<close> callback of \<^verbatim>\<open>createHeatDeviationLayerSD\<close>, whose mean and deviation
  are those of the current temperatures.
\<close>

definition heat_deviation_style :: "tempData list \<Rightarrow> feature \<Rightarrow> string" where
  "heat_deviation_style temps f =
     (let ts = map temp_f temps;
          mean = fold (\<lambda>t sum. sum + t) ts 0 / real (length ts);
          stdDev = calculateStandardDeviation ts
      in case find (\<lambda>d. tractId d = geoid f) temps of
           None \<Rightarrow> grey
         | Some tempData \<Rightarrow>
             (let zScore = js_div (temp_f tempData - mean) stdDev in
              if js_ge zScore 2.0 then ''#8B0000''
              else if js_ge zScore 1.5 then ''#FF4500''
              else if js_ge zScore 1.0 then ''#FF8C00''
              else if js_ge zScore 0.5 then ''#FFD700''
              else grey))"

section \<open>Quantities that the properties speak about\<close>

text \<open>The sum of the four counts of a tier table, and of the eight deviation counts.\<close>

definition tier_sum :: "tier_table \<Rightarrow> nat" where
  "tier_sum tbl = count (tbl extreme) + count (tbl very_high) + count (tbl high) + count (tbl elevated)"

definition deviation_total :: "classification \<Rightarrow> nat" where
  "deviation_total st = tier_sum (heatDeviation st) + tier_sum (coldDeviation st)"

text \<open>
  A small store: one residential tract of Manhattan with ten observations, eight hours
  apart.
\<close>

definition obs_at :: "int \<Rightarrow> real \<Rightarrow> observation" where
  "obs_at i t = \<lparr> obs_tract_id = ''36061000100'', observed_at = i * 28800000000, temperature_f = t \<rparr>"

definition demo_tract :: census_tract where
  "demo_tract = \<lparr> tract_id = ''36061000100'', tract_name = ''Tract 1'', elderly_65plus = 120 \<rparr>"

definition demo_tracts :: "census_tract list" where
  "demo_tracts = [demo_tract]"

definition demo_history :: "observation list" where
  "demo_history = [obs_at 0 70.12, obs_at 1 70, obs_at 2 70, obs_at 3 70, obs_at 4 70,
                   obs_at 5 70, obs_at 6 70, obs_at 7 70, obs_at 8 70, obs_at 9 70]"





definition demo_group :: "group_key \<times> joined list" where
  "demo_group = ((''36061000100'', ''Tract 1'', 120), map (\<lambda>t. (t, demo_tract)) demo_history)"



text \<open>
  Two more stores of the demonstration tract (two observations, at 70 and 72 degrees; a
  single observation), and what the map page holds for that tract: a temperature of 75
  degrees and the feature of the boundary file.
\<close>

definition two_obs :: "observation list" where
  "two_obs = [obs_at 0 70, obs_at 1 72]"

definition single_obs :: "observation list" where
  "single_obs = [obs_at 0 70]"

definition warm_temp :: tempData where
  "warm_temp = \<lparr> temp_f = 75, tractId = ''36061000100'', elderlyCount = 120 \<rparr>"

definition demo_feature :: feature where
  "demo_feature = \<lparr> geoid = ''36061000100'', Old_Age_65plus = Some 120 \<rparr>"

text \<open>
  A store in which one sweep has written two rows for the demonstration tract, thirty
  seconds apart.
\<close>

definition drift_obs :: "observation list" where
  "drift_obs =
     [\<lparr> obs_tract_id = ''36061000100'', observed_at = 0, temperature_f = 70 \<rparr>,
      \<lparr> obs_tract_id = ''36061000100'', observed_at = 30000000, temperature_f = 72 \<rparr>]"

text \<open>
  The census table without its non-residential tracts, and a park: a tract of Manhattan
  without elderly residents.
\<close>

definition residential_tracts :: "census_tract list \<Rightarrow> census_tract list" where
  "residential_tracts cs = filter (\<lambda>c. elderly_65plus c > 0) cs"

definition park_tract :: census_tract where
  "park_tract = \<lparr> tract_id = ''36061014300'', tract_name = ''Park'', elderly_65plus = 0 \<rparr>"

text \<open>The response with the key overall blanked.\<close>

definition no_overall :: overall where
  "no_overall =
     \<lparr> ov_total_observations = 0, ov_total_tracts = 0, ov_total_tracts_all = 0,
       ov_total_tracts_residential = 0, ov_total_elderly = 0,
       ov_data_start = None, ov_data_end = None \<rparr>"

definition without_overall :: "error + response \<Rightarrow> error + response" where
  "without_overall r = map_sum id (\<lambda>rep. rep\<lparr> rp_overall := no_overall \<rparr>) r"

text \<open>
  A store with the demonstration tract, observed once, and a park without elderly
  residents, observed eight hours later.
\<close>

definition mixed_tracts :: "census_tract list" where
  "mixed_tracts = [demo_tract, park_tract]"

definition mixed_obs :: "observation list" where
  "mixed_obs =
     [\<lparr> obs_tract_id = ''36061000100'', observed_at = 0, temperature_f = 70 \<rparr>,
      \<lparr> obs_tract_id = ''36061014300'', observed_at = 28800000000, temperature_f = 75 \<rparr>]"

text \<open>
  The tiers of the composite risk score in the words of the specification: extreme from
  1.5, very high from 1.2 and below 1.5, high from 0.9 and below 1.2, elevated from 0.5 and
  below 0.9.
\<close>

fun in_composite_tier :: "tier \<Rightarrow> real \<Rightarrow> bool" where
  "in_composite_tier extreme r = (r \<ge> 1.5)"
| "in_composite_tier very_high r = (r \<ge> 1.2 \<and> r < 1.5)"
| "in_composite_tier high r = (r \<ge> 0.9 \<and> r < 1.2)"
| "in_composite_tier elevated r = (r \<ge> 0.5 \<and> r < 0.9)"






section \<open>Properties\<close>

subsection \<open>The classification loop\<close>

lemma tier_sum_bump: "tier_sum (bump tbl k e) = tier_sum tbl + 1"
  by (cases k) (simp_all add: tier_sum_def bump_def)

lemma tier_sum_bump_opt:
  "tier_sum (bump_opt tbl k e) = tier_sum tbl + (case k of None \<Rightarrow> 0 | Some _ \<Rightarrow> 1)"
  by (cases k) (simp_all add: bump_opt_def tier_sum_bump)

lemma deviation_tier_Some: "0.5 \<le> z \<Longrightarrow> \<exists>t. deviation_tier z = Some t"
  by (simp add: deviation_tier_def)

lemma deviation_total_step:
  "deviation_total (classify_tract m s mx row st) =
     deviation_total st +
       (if zScore m s (cr_temperature_f row) \<ge> 0.5 \<or> zScore m s (cr_temperature_f row) \<le> - 0.5
        then 1 else 0)"
proof -
  let ?z = "zScore m s (cr_temperature_f row)"
  consider (hot) "?z \<ge> 0.5" | (cold) "?z \<le> - 0.5" | (mid) "\<not> ?z \<ge> 0.5" "\<not> ?z \<le> - 0.5"
    by linarith
  then show ?thesis
  proof cases
    case hot
    then have nc: "\<not> ?z \<le> - 0.5" by simp
    from hot obtain t where "deviation_tier ?z = Some t"
      using deviation_tier_Some by blast
    with hot nc show ?thesis
      by (simp add: classify_tract_def Let_def deviation_total_def tier_sum_bump_opt)
  next
    case cold
    then have nh: "\<not> ?z \<ge> 0.5" by simp
    from cold have "0.5 \<le> \<bar>?z\<bar>" by simp
    then obtain t where "deviation_tier \<bar>?z\<bar> = Some t"
      using deviation_tier_Some by blast
    with cold nh show ?thesis
      by (simp add: classify_tract_def Let_def deviation_total_def tier_sum_bump_opt)
  next
    case mid
    then show ?thesis
      by (simp add: classify_tract_def Let_def)
  qed
qed

lemma deviation_total_fold:
  "deviation_total (fold (classify_tract m s mx) rows st) \<le> deviation_total st + length rows"
proof (induction rows arbitrary: st)
  case Nil
  show ?case by simp
next
  case (Cons row rows)
  have "deviation_total (fold (classify_tract m s mx) (row # rows) st)
        \<le> deviation_total (classify_tract m s mx row st) + length rows"
    using Cons.IH by simp
  also have "\<dots> \<le> deviation_total st + 1 + length rows"
    by (simp add: deviation_total_step)
  finally show ?case by simp
qed

lemma deviation_total_initial: "deviation_total initial_classification = 0"
  by (simp add: deviation_total_def tier_sum_def initial_classification_def empty_table_def)

text \<open>
  Claim C10.  For one row of the snapshot the heat branch and the cold branch exclude each
  other, a pass of the loop body never lowers a count and raises the heat deviation counts,
  the cold deviation counts and all eight together by at most one; so after the loop the
  eight deviation counts add up to at most the number of snapshot rows.
\<close>

theorem C10_deviation_counts_bounded:
  "\<not> (zScore m s t \<ge> 0.5 \<and> zScore m s t \<le> - 0.5)
   \<and> deviation_total st \<le> deviation_total (classify_tract m s mx row st)
   \<and> tier_sum (heatDeviation (classify_tract m s mx row st)) \<le> tier_sum (heatDeviation st) + 1
   \<and> tier_sum (coldDeviation (classify_tract m s mx row st)) \<le> tier_sum (coldDeviation st) + 1
   \<and> deviation_total (classify_tract m s mx row st) \<le> deviation_total st + 1
   \<and> deviation_total (classify_all m s mx rows) \<le> length rows"
proof -
  have a: "\<not> (zScore m s t \<ge> 0.5 \<and> zScore m s t \<le> - 0.5)" by simp
  have b: "deviation_total st \<le> deviation_total (classify_tract m s mx row st)"
    and e: "deviation_total (classify_tract m s mx row st) \<le> deviation_total st + 1"
    by (simp_all add: deviation_total_step)
  have c: "tier_sum (heatDeviation (classify_tract m s mx row st)) \<le> tier_sum (heatDeviation st) + 1"
    by (simp add: classify_tract_def Let_def tier_sum_bump_opt split: option.split)
  have d: "tier_sum (coldDeviation (classify_tract m s mx row st)) \<le> tier_sum (coldDeviation st) + 1"
    by (simp add: classify_tract_def Let_def tier_sum_bump_opt split: option.split)
  have f: "deviation_total (classify_all m s mx rows) \<le> length rows"
    using deviation_total_fold [of m s mx rows initial_classification]
    by (simp add: classify_all_def deviation_total_initial)
  from a b c d e f show ?thesis by blast
qed

subsection \<open>A store with a single tract\<close>

lemma inner_join_single:
  "\<forall>t\<in>set obs. obs_tract_id t = tract_id c \<Longrightarrow> inner_join obs [c] = map (\<lambda>t. (t, c)) obs"
  by (induction obs) (simp_all add: inner_join_def)

lemma residential_rows_single:
  assumes "\<forall>t\<in>set obs. obs_tract_id t = tract_id c"
    and "like_36061 (tract_id c)" and "elderly_65plus c > 0"
  shows "residential_rows obs [c] = map (\<lambda>t. (t, c)) obs"
  using assms(2,3) by (simp add: residential_rows_def inner_join_single [OF assms(1)] residential_def)

lemma demo_residential_rows:
  "residential_rows demo_history demo_tracts = map (\<lambda>t. (t, demo_tract)) demo_history"
  unfolding demo_tracts_def
  by (rule residential_rows_single) (simp_all add: demo_history_def obs_at_def demo_tract_def like_36061_def)

lemma demo_latest: "latest_time demo_history demo_tracts = Some 259200000000"
  by (simp add: latest_time_def demo_residential_rows o_def)
     (simp add: demo_history_def obs_at_def sql_MAX_def)

subsection \<open>The current snapshot is not empty\<close>

lemma fold_max_mem: "fold max ys (x::'a::linorder) \<in> set (x # ys)"
proof -
  have "Max (set (x # ys)) \<in> set (x # ys)" by (rule Max_in) simp_all
  then show ?thesis by (simp only: Max.set_eq_fold)
qed

lemma sql_MAX_mem: "sql_MAX xs = Some m \<Longrightarrow> m \<in> set xs"
  using fold_max_mem by (cases xs) (auto simp: sql_MAX_def)

lemma latest_in_window:
  assumes "latest_time obs cs = Some l"
  shows "window_rows obs cs l \<noteq> []"
proof -
  from assms have "l \<in> set (map (\<lambda>r. observed_at (fst r)) (residential_rows obs cs))"
    unfolding latest_time_def by (rule sql_MAX_mem)
  then obtain r where r: "r \<in> set (residential_rows obs cs)" "observed_at (fst r) = l"
    by auto
  then have "r \<in> set (inner_join obs cs)" "residential r"
    by (simp_all add: residential_rows_def)
  moreover have "in_window l r"
    using r(2) by (simp add: in_window_def one_minute_def)
  ultimately have "r \<in> set (window_rows obs cs l)"
    by (simp add: window_rows_def)
  then show ?thesis by auto
qed

lemma php_mean_nonempty: "xs \<noteq> [] \<Longrightarrow> php_mean xs = Inr (array_sum xs / real (length xs))"
  by (simp add: php_mean_def)

lemma php_max_nonempty: "xs \<noteq> [] \<Longrightarrow> \<exists>m. php_max xs = Inr m"
  by (cases xs) (simp_all add: php_max_def)

lemma php_min_nonempty: "xs \<noteq> [] \<Longrightarrow> \<exists>m. php_min xs = Inr m"
  by (cases xs) (simp_all add: php_min_def)

lemma current_statistics_nonempty:
  assumes "rows \<noteq> []"
  shows "\<exists>st. current_statistics rows = Inr st"
proof -
  let ?ts = "map cr_temperature_f rows"
  from assms have ne: "?ts \<noteq> []" by simp
  obtain lo where lo: "php_min ?ts = Inr lo" using php_min_nonempty [OF ne] by blast
  obtain hi where hi: "php_max ?ts = Inr hi" using php_max_nonempty [OF ne] by blast
  show ?thesis
    by (simp add: current_statistics_def Let_def php_mean_nonempty [OF ne] lo hi)
qed

lemma risk_statistics_at_nonempty:
  assumes "currentData obs cs l \<noteq> []"
  shows "\<exists>rep. risk_statistics_at obs cs l = Inr rep
           \<and> tracts rep = tractCumulativeData (historicMean obs cs) (historicStdDev obs cs) obs cs
           \<and> rp_global_averages rep =
               \<lparr> ga_temperature = round2 (historicMean obs cs),
                 ga_stddev_temp = round2 (historicStdDev obs cs) \<rparr>
           \<and> rp_overall rep = overall_statistics obs cs"
proof -
  obtain st where st: "current_statistics (currentData obs cs l) = Inr st"
    using current_statistics_nonempty [OF assms] by blast
  from assms have "map elderly_count (currentData obs cs l) \<noteq> []" by simp
  then obtain mx where mx: "php_max (map elderly_count (currentData obs cs l)) = Inr mx"
    using php_max_nonempty by blast
  show ?thesis
    by (simp add: risk_statistics_at_def Let_def st mx json_response_def)
qed

lemma get_risk_statistics_defined:
  assumes "latest_time obs cs = Some l"
  shows "\<exists>rep. get_risk_statistics obs cs = Inr rep
           \<and> tracts rep = tractCumulativeData (historicMean obs cs) (historicStdDev obs cs) obs cs
           \<and> rp_global_averages rep =
               \<lparr> ga_temperature = round2 (historicMean obs cs),
                 ga_stddev_temp = round2 (historicStdDev obs cs) \<rparr>
           \<and> rp_overall rep = overall_statistics obs cs"
proof -
  have "currentData obs cs l \<noteq> []"
    using latest_in_window [OF assms] by (simp add: currentData_def)
  from risk_statistics_at_nonempty [OF this] show ?thesis
    by (simp add: get_risk_statistics_def assms)
qed

text \<open>
  Claim C9.  When the latest-timestamp query returns a timestamp, the current snapshot
  selected with it is not empty: the mean does not divide by \<^verbatim>\<open>count([])\<close>, the maximum
  of the elderly counts is not taken of an empty array, and the endpoint returns a response.
\<close>

theorem C9_snapshot_nonempty:
  assumes "latest_time obs cs = Some l"
  shows "currentData obs cs l \<noteq> []
       \<and> php_mean (map cr_temperature_f (currentData obs cs l)) \<noteq> Inl DivisionByZeroError
       \<and> php_max (map elderly_count (currentData obs cs l)) \<noteq> Inl ValueError
       \<and> (\<exists>rep. get_risk_statistics obs cs = Inr rep)"
proof -
  have ne: "currentData obs cs l \<noteq> []"
    using latest_in_window [OF assms] by (simp add: currentData_def)
  then have a: "php_mean (map cr_temperature_f (currentData obs cs l)) \<noteq> Inl DivisionByZeroError"
    by (simp add: php_mean_def)
  from ne have "map elderly_count (currentData obs cs l) \<noteq> []" by simp
  from php_max_nonempty [OF this]
  obtain mx where "php_max (map elderly_count (currentData obs cs l)) = Inr mx" ..
  then have b: "php_max (map elderly_count (currentData obs cs l)) \<noteq> Inl ValueError"
    by simp
  from get_risk_statistics_defined [OF assms]
  obtain rep where "get_risk_statistics obs cs = Inr rep" by (elim exE conjE)
  then have c: "\<exists>rep. get_risk_statistics obs cs = Inr rep" ..
  show ?thesis
    using ne a b c by (intro conjI)
qed

theorem C9_snapshot_nonempty_witness:
  "latest_time demo_history demo_tracts = Some 259200000000
   \<and> currentData demo_history demo_tracts 259200000000 \<noteq> []
   \<and> php_mean (map cr_temperature_f (currentData demo_history demo_tracts 259200000000))
       \<noteq> Inl DivisionByZeroError
   \<and> php_max (map elderly_count (currentData demo_history demo_tracts 259200000000))
       \<noteq> Inl ValueError
   \<and> (\<exists>rep. get_risk_statistics demo_history demo_tracts = Inr rep)"
  using C9_snapshot_nonempty [OF demo_latest] demo_latest by (intro conjI) (elim conjE, assumption)+

subsection \<open>The composite risk score\<close>







lemma heat_color_finite:
  "heat_color (Fin r) =
     (if in_composite_tier extreme r then Some ''#8B0000''
      else if in_composite_tier very_high r then Some ''#FF4500''
      else if in_composite_tier high r then Some ''#FF8C00''
      else if in_composite_tier elevated r then Some ''#FFD700''
      else None)"
  by (simp add: heat_color_def)

lemma heat_vulnerability_style_finite:
  assumes "find (\<lambda>d. tractId d = geoid f) temps = Some d"
    and "sd \<noteq> 0" and "mx \<noteq> 0" and "(temp_f d - mean) / sd \<ge> 0.5"
  shows "heat_vulnerability_style mean sd mx temps f =
           (case heat_color (Fin ((temp_f d - mean) / sd * 0.6 + old_age_or_0 f / mx * 0.4)) of
              None \<Rightarrow> grey | Some color \<Rightarrow> color)"
  using assms
  by (simp add: heat_vulnerability_style_def Let_def layer_zScore_def layer_riskScore_def js_div_def)


subsection \<open>The cumulative query\<close>










lemma remdups_const: "xs \<noteq> [] \<Longrightarrow> \<forall>x\<in>set xs. x = k \<Longrightarrow> remdups xs = [k]"
proof (induction xs)
  case Nil
  then show ?case by simp
next
  case (Cons x xs)
  show ?case
  proof (cases "xs = []")
    case True
    with Cons.prems show ?thesis by simp
  next
    case False
    with Cons have "remdups xs = [k]" by simp
    moreover from False Cons.prems have "x \<in> set xs"
      by (cases xs) auto
    ultimately show ?thesis by simp
  qed
qed

lemma group_by_const:
  assumes "rows \<noteq> []" and "\<forall>r\<in>set rows. key r = k"
  shows "group_by key rows = [(k, rows)]"
proof -
  have "remdups (map key rows) = [k]"
    using assms by (intro remdups_const) auto
  moreover have "filter (\<lambda>r. key r = k) rows = rows"
    using assms(2) by (simp add: filter_id_conv)
  ultimately show ?thesis by (simp add: group_by_def)
qed

lemma demo_cumulative_groups: "cumulative_groups demo_history demo_tracts = [demo_group]"
proof -
  let ?rows = "map (\<lambda>t. (t, demo_tract)) demo_history"
  have "group_by group_key ?rows = [((''36061000100'', ''Tract 1'', 120), ?rows)]"
    by (rule group_by_const)
       (simp_all add: demo_history_def obs_at_def demo_tract_def group_key_def)
  moreover have "length ?rows = 10" by (simp add: demo_history_def)
  ultimately show ?thesis
    by (simp add: cumulative_groups_def demo_residential_rows demo_group_def)
qed








subsection \<open>The baseline deviation\<close>

text \<open>
  The baseline deviation divides by N - 1 and is 0 for fewer than two observations; the
  deviation of the current snapshot and the one the map page computes divide by N.
\<close>

lemma fold_plus_sum_list: "fold (\<lambda>x s. s + x) xs (a::real) = a + sum_list xs"
  by (induction xs arbitrary: a) simp_all

lemma array_sum_sum_list: "array_sum xs = sum_list xs"
  by (simp add: array_sum_def fold_plus_sum_list)

lemma historicStdDev_sample:
  assumes "2 \<le> length (historic_temps obs cs)"
  shows "historicStdDev obs cs =
           sqrt (sum_list (map (\<lambda>t. (t - historicMean obs cs)\<^sup>2) (historic_temps obs cs))
                 / (real (length (historic_temps obs cs)) - 1))"
proof -
  from assms have ne: "historic_temps obs cs \<noteq> []" by auto
  from assms have "real (length (historic_temps obs cs) - 1) = real (length (historic_temps obs cs)) - 1"
    by (simp add: of_nat_diff)
  with assms ne show ?thesis
    by (simp add: historicStdDev_def historicMean_def sql_STDDEV_def sql_AVG_def floatval_def Let_def)
qed

lemma historicStdDev_few: "length (historic_temps obs cs) < 2 \<Longrightarrow> historicStdDev obs cs = 0"
  by (simp add: historicStdDev_def sql_STDDEV_def floatval_def)

lemma calculateStandardDeviation_population:
  assumes "vs \<noteq> []"
  shows "calculateStandardDeviation vs =
           sqrt (sum_list (map (\<lambda>v. (v - sum_list vs / real (length vs))\<^sup>2) vs) / real (length vs))"
  using assms by (simp add: calculateStandardDeviation_def Let_def fold_plus_sum_list)

lemma current_statistics_population:
  assumes "current_statistics rows = Inr st"
  shows "ss_stdDev st =
           sqrt (sum_list (map (\<lambda>t. (t - ss_mean st)\<^sup>2) (map cr_temperature_f rows))
                 / real (length rows))"
  using assms
  by (auto simp: current_statistics_def Let_def php_mean_def array_sum_sum_list
        split: if_splits sum.splits)

lemma two_obs_temps: "historic_temps two_obs demo_tracts = [70, 72]"
proof -
  have "residential_rows two_obs [demo_tract] = map (\<lambda>t. (t, demo_tract)) two_obs"
    by (rule residential_rows_single) (simp_all add: two_obs_def obs_at_def demo_tract_def like_36061_def)
  then show ?thesis
    by (simp add: historic_temps_def demo_tracts_def two_obs_def obs_at_def)
qed

text \<open>
  Claim C1.  The baseline deviation is the SQL aggregate \<^verbatim>\<open>STDDEV\<close>, the sample
  standard deviation: for the two residential observations 70 and 72 it is the square root
  of 2, whereas the formula of the claim (divide by N), which the map page's
  \<^verbatim>\<open>calculateStandardDeviation\<close> computes, gives 1.
\<close>

theorem C1_baseline_sample_stddev:
  "historic_temps two_obs demo_tracts = [70, 72]
   \<and> historicMean two_obs demo_tracts = 71
   \<and> historicStdDev two_obs demo_tracts = sqrt 2
   \<and> sqrt (sum_list (map (\<lambda>t. (t - 71)\<^sup>2) [70, 72]) / real (length [70, 72 :: real])) = 1
   \<and> historicStdDev two_obs demo_tracts \<noteq> 1
   \<and> calculateStandardDeviation [70, 72] = 1"
proof -
  have m: "historicMean two_obs demo_tracts = 71"
    by (simp add: historicMean_def two_obs_temps sql_AVG_def floatval_def)
  have s: "historicStdDev two_obs demo_tracts = sqrt 2"
    by (simp add: historicStdDev_def two_obs_temps sql_STDDEV_def floatval_def Let_def)
  have p: "sqrt (sum_list (map (\<lambda>t. (t - 71)\<^sup>2) [70, 72]) / real (length [70, 72 :: real])) = 1"
    by simp
  have n: "historicStdDev two_obs demo_tracts \<noteq> 1"
    by (simp add: s)
  have c: "calculateStandardDeviation [70, 72] = 1"
    by (simp add: calculateStandardDeviation_def Let_def)
  show ?thesis by (intro conjI two_obs_temps m s p n c)
qed

subsection \<open>A baseline deviation of zero\<close>

lemma single_obs_stddev: "historicStdDev single_obs demo_tracts = 0"
proof -
  have "residential_rows single_obs [demo_tract] = map (\<lambda>t. (t, demo_tract)) single_obs"
    by (rule residential_rows_single) (simp_all add: single_obs_def obs_at_def demo_tract_def like_36061_def)
  then show ?thesis
    by (simp add: historicStdDev_def historic_temps_def demo_tracts_def single_obs_def
          sql_STDDEV_def floatval_def)
qed

lemma single_obs_latest: "latest_time single_obs demo_tracts = Some 0"
proof -
  have "residential_rows single_obs [demo_tract] = map (\<lambda>t. (t, demo_tract)) single_obs"
    by (rule residential_rows_single) (simp_all add: single_obs_def obs_at_def demo_tract_def like_36061_def)
  then show ?thesis
    by (simp add: latest_time_def demo_tracts_def single_obs_def obs_at_def sql_MAX_def)
qed

lemma round2_0: "round2 0 = 0"
  by (simp add: round2_def)

text \<open>
  Claim C3.  The loop of the endpoint and \<^verbatim>\<open>calculateZScore\<close> return 0 for a deviation
  of 0 and the cumulative query yields NULL; the layers of the map page divide without a
  test.  A store with a single residential observation gives the page the deviation 0; a
  temperature of 75 against the mean 70 then has the z-score plus infinity and the tract is
  painted as extreme, and the deviation layer computes 0 / 0 for a single temperature.
\<close>

theorem C3_layer_divides_by_zero:
  "zScore 70 0 75 = 0
   \<and> calculateZScore 75 70 0 = 0
   \<and> sql_z 70 0 75 = None
   \<and> map_sum id (\<lambda>rep. bl_stdDev (fetchRiskStatistics rep))
        (get_risk_statistics single_obs demo_tracts) = Inr 0
   \<and> layer_zScore 75 70 0 = PosInf
   \<and> heat_vulnerability_style 70 0 120 [warm_temp] demo_feature = ''#8B0000''
   \<and> heat_deviation_style [warm_temp] demo_feature = grey
   \<and> js_div (temp_f warm_temp - 75) (calculateStandardDeviation [75]) = NaN"
proof -
  have a: "zScore 70 0 75 = 0" by (simp add: zScore_def)
  have b: "calculateZScore 75 70 0 = 0" by (simp add: calculateZScore_def)
  have c: "sql_z 70 0 75 = None" by (simp add: sql_z_def)
  from get_risk_statistics_defined [OF single_obs_latest]
  obtain rep where rep: "get_risk_statistics single_obs demo_tracts = Inr rep"
    and ga: "rp_global_averages rep =
               \<lparr> ga_temperature = round2 (historicMean single_obs demo_tracts),
                 ga_stddev_temp = round2 (historicStdDev single_obs demo_tracts) \<rparr>"
    by (elim exE conjE)
  have d: "map_sum id (\<lambda>rep. bl_stdDev (fetchRiskStatistics rep))
        (get_risk_statistics single_obs demo_tracts) = Inr 0"
    by (simp add: rep fetchRiskStatistics_def ga single_obs_stddev round2_0)
  have e: "layer_zScore 75 70 0 = PosInf" by (simp add: layer_zScore_def js_div_def)
  have f: "heat_vulnerability_style 70 0 120 [warm_temp] demo_feature = ''#8B0000''"
    by (simp add: heat_vulnerability_style_def Let_def warm_temp_def demo_feature_def e
          old_age_or_0_def js_div_def layer_riskScore_def heat_color_def)
  have sd: "calculateStandardDeviation [75] = 0"
    by (simp add: calculateStandardDeviation_def Let_def)
  have g: "heat_deviation_style [warm_temp] demo_feature = grey"
    by (simp add: heat_deviation_style_def Let_def warm_temp_def demo_feature_def sd js_div_def)
  have h: "js_div (temp_f warm_temp - 75) (calculateStandardDeviation [75]) = NaN"
    by (simp add: sd warm_temp_def js_div_def)
  show ?thesis by (intro conjI a b c d e f g h)
qed

subsection \<open>One row per tract\<close>

lemma distinct_on_unseen: "y \<in> set (distinct_on f seen xs) \<Longrightarrow> f y \<notin> set seen"
proof (induction xs arbitrary: seen)
  case Nil
  then show ?case by simp
next
  case (Cons x xs)
  show ?case
  proof (cases "f x \<in> set seen")
    case True
    with Cons show ?thesis by simp
  next
    case False
    with Cons.prems have "y = x \<or> y \<in> set (distinct_on f (f x # seen) xs)" by simp
    then show ?thesis
    proof
      assume "y = x"
      with False show ?thesis by simp
    next
      assume "y \<in> set (distinct_on f (f x # seen) xs)"
      from Cons.IH [OF this] show ?thesis by simp
    qed
  qed
qed

lemma distinct_on_distinct: "distinct (map f (distinct_on f seen xs))"
proof (induction xs arbitrary: seen)
  case Nil
  show ?case by simp
next
  case (Cons x xs)
  have "f x \<notin> f ` set (distinct_on f (f x # seen) xs)"
  proof
    assume "f x \<in> f ` set (distinct_on f (f x # seen) xs)"
    then obtain y where y: "y \<in> set (distinct_on f (f x # seen) xs)" "f x = f y"
      by (rule imageE)
    from distinct_on_unseen [OF y(1)] have "f y \<notin> set (f x # seen)" .
    with y(2) show False by simp
  qed
  with Cons show ?case by simp
qed

lemma latest_data_one_per_tract: "distinct (map d_tract_id (latest_data obs cs))"
proof -
  have "map d_tract_id (latest_data obs cs) = map (\<lambda>r. obs_tract_id (fst r)) (latest_per_tract obs cs)"
    by (simp add: latest_data_def o_def)
  then show ?thesis
    using distinct_on_distinct [of "\<lambda>r. obs_tract_id (fst r)" "[]"]
    by (simp add: latest_per_tract_def)
qed

lemma drift_rows: "residential_rows drift_obs demo_tracts = map (\<lambda>t. (t, demo_tract)) drift_obs"
  unfolding demo_tracts_def
  by (rule residential_rows_single) (simp_all add: drift_obs_def demo_tract_def like_36061_def)

lemma drift_join: "inner_join drift_obs demo_tracts = map (\<lambda>t. (t, demo_tract)) drift_obs"
  unfolding demo_tracts_def
  by (rule inner_join_single) (simp_all add: drift_obs_def demo_tract_def)

lemma drift_latest: "latest_time drift_obs demo_tracts = Some 30000000"
  by (simp add: latest_time_def drift_rows o_def) (simp add: drift_obs_def sql_MAX_def)

lemma drift_current:
  "currentData drift_obs demo_tracts 30000000 =
     [\<lparr> cr_tract_id = ''36061000100'', cr_temperature_f = 70, elderly_count = 120,
        cr_tract_name = ''Tract 1'' \<rparr>,
      \<lparr> cr_tract_id = ''36061000100'', cr_temperature_f = 72, elderly_count = 120,
        cr_tract_name = ''Tract 1'' \<rparr>]"
  by (simp add: currentData_def window_rows_def drift_join)
     (simp add: drift_obs_def in_window_def one_minute_def residential_def demo_tract_def like_36061_def)

lemma drift_temps: "historic_temps drift_obs demo_tracts = [70, 72]"
  by (simp add: historic_temps_def drift_rows o_def) (simp add: drift_obs_def)

lemma drift_baseline:
  "historicMean drift_obs demo_tracts = 71" "historicStdDev drift_obs demo_tracts = sqrt 2"
  by (simp_all add: historicMean_def historicStdDev_def drift_temps
        sql_AVG_def sql_STDDEV_def floatval_def Let_def)

lemma sqrt2_bounds: "1 / sqrt 2 \<ge> 0.5" "- (1 / sqrt 2) \<le> - 0.5"
proof -
  have "sqrt 2 \<le> sqrt 4" by (simp only: real_sqrt_le_iff)
  then have "sqrt 2 \<le> 2" by simp
  moreover have "0 < sqrt 2" by simp
  ultimately show "1 / sqrt 2 \<ge> 0.5" by (simp add: field_simps)
  then show "- (1 / sqrt 2) \<le> - 0.5" by simp
qed

lemma drift_total:
  "deviation_total (classify_all 71 (sqrt 2) 120 (currentData drift_obs demo_tracts 30000000)) = 2"
proof -
  have z1: "zScore 71 (sqrt 2) 70 = - (1 / sqrt 2)" and z2: "zScore 71 (sqrt 2) 72 = 1 / sqrt 2"
    by (simp_all add: zScore_def)
  show ?thesis
    using sqrt2_bounds
    by (simp add: drift_current classify_all_def deviation_total_step z1 z2 deviation_total_initial)
qed

text \<open>
  Claim C2.  The snapshot query of the risk endpoint takes every residential row of the
  window and has no \<^verbatim>\<open>DISTINCT ON\<close>: when a tract has two observations thirty seconds
  apart, both rows are in the current data and both are classified (the two deviation
  counts come from a single tract), whereas the query of the other endpoint keeps one row
  for the tract, the most recent.
\<close>

theorem C2_window_keeps_duplicates:
  "latest_time drift_obs demo_tracts = Some 30000000
   \<and> map cr_tract_id (currentData drift_obs demo_tracts 30000000)
       = [''36061000100'', ''36061000100'']
   \<and> deviation_total (classify_all (historicMean drift_obs demo_tracts)
         (historicStdDev drift_obs demo_tracts) 120
         (currentData drift_obs demo_tracts 30000000)) = 2
   \<and> map d_tract_id (latest_data drift_obs demo_tracts) = [''36061000100'']
   \<and> map d_observed_at (latest_data drift_obs demo_tracts) = [30000000]"
proof -
  have a: "map cr_tract_id (currentData drift_obs demo_tracts 30000000)
       = [''36061000100'', ''36061000100'']"
    by (simp add: drift_current)
  have b: "deviation_total (classify_all (historicMean drift_obs demo_tracts)
         (historicStdDev drift_obs demo_tracts) 120
         (currentData drift_obs demo_tracts 30000000)) = 2"
    by (simp only: drift_baseline drift_total)
  have l: "latest_per_tract drift_obs demo_tracts =
             [(\<lparr> obs_tract_id = ''36061000100'', observed_at = 30000000, temperature_f = 72 \<rparr>, demo_tract)]"
    by (simp add: latest_per_tract_def drift_join) (simp add: drift_obs_def)
  have c: "map d_tract_id (latest_data drift_obs demo_tracts) = [''36061000100'']"
    and d: "map d_observed_at (latest_data drift_obs demo_tracts) = [30000000]"
    by (simp_all add: latest_data_def l)
  show ?thesis by (intro conjI drift_latest a b c d)
qed

subsection \<open>The residential filter\<close>

lemma inner_join_filter:
  "inner_join obs (filter P cs) = filter (\<lambda>r. P (snd r)) (inner_join obs cs)"
  by (induction obs) (simp_all add: inner_join_def filter_map o_def conj_commute)

lemma residential_rows_filter:
  "residential_rows obs (residential_tracts cs) = residential_rows obs cs"
  by (auto simp: residential_rows_def residential_tracts_def inner_join_filter residential_def
        intro: filter_cong)

lemma window_rows_filter:
  "window_rows obs (residential_tracts cs) l = window_rows obs cs l"
  by (auto simp: window_rows_def residential_tracts_def inner_join_filter residential_def
        intro: filter_cong)

lemma components_filter:
  "latest_time obs (residential_tracts cs) = latest_time obs cs"
  "historicMean obs (residential_tracts cs) = historicMean obs cs"
  "historicStdDev obs (residential_tracts cs) = historicStdDev obs cs"
  "currentData obs (residential_tracts cs) l = currentData obs cs l"
  "tractCumulativeData m s obs (residential_tracts cs) = tractCumulativeData m s obs cs"
  "heat_stats m s obs (residential_tracts cs) = heat_stats m s obs cs"
  "cold_stats m s obs (residential_tracts cs) = cold_stats m s obs cs"
  "all_time_max_temp obs (residential_tracts cs) = all_time_max_temp obs cs"
  "all_time_min_temp obs (residential_tracts cs) = all_time_min_temp obs cs"
  "allTimeHottestTract obs (residential_tracts cs) = allTimeHottestTract obs cs"
  "allTimeColdestTract obs (residential_tracts cs) = allTimeColdestTract obs cs"
  "hottest_temp obs (residential_tracts cs) l = hottest_temp obs cs l"
  "coldest_temp obs (residential_tracts cs) l = coldest_temp obs cs l"
  by (simp_all add: latest_time_def historicMean_def historicStdDev_def historic_temps_def
        currentData_def tractCumulativeData_def cumulative_groups_def heat_stats_def
        cold_stats_def stats_groups_def all_time_max_temp_def all_time_min_temp_def
        allTimeHottestTract_def allTimeColdestTract_def hottest_temp_def coldest_temp_def
        residential_rows_filter window_rows_filter)

lemma without_overall_filter:
  "without_overall (get_risk_statistics obs (residential_tracts cs))
     = without_overall (get_risk_statistics obs cs)"
proof (cases "latest_time obs cs")
  case None
  then show ?thesis by (simp add: get_risk_statistics_def components_filter)
next
  case (Some l)
  show ?thesis
    by (simp add: get_risk_statistics_def risk_statistics_at_def Let_def components_filter Some
          without_overall_def json_response_def split: sum.split)
qed

text \<open>
  Claim C6, as amended.  In the risk endpoint the tracts with \<open>elderly_65plus = 0\<close> have
  no part in the latest timestamp, the baseline, the current snapshot with its statistics
  and classification, the cumulative rows, the cumulative tier statistics and the
  extremes: deleting these tracts from the census table changes nothing in the response
  outside the key \<^verbatim>\<open>overall\<close>.
\<close>

theorem C6_risk_statistics_residential_only:
  "without_overall (get_risk_statistics obs (residential_tracts cs))
     = without_overall (get_risk_statistics obs cs)
   \<and> latest_time obs (residential_tracts cs) = latest_time obs cs
   \<and> historicMean obs (residential_tracts cs) = historicMean obs cs
   \<and> historicStdDev obs (residential_tracts cs) = historicStdDev obs cs
   \<and> currentData obs (residential_tracts cs) l = currentData obs cs l
   \<and> tractCumulativeData m s obs (residential_tracts cs) = tractCumulativeData m s obs cs
   \<and> heat_stats m s obs (residential_tracts cs) = heat_stats m s obs cs
   \<and> cold_stats m s obs (residential_tracts cs) = cold_stats m s obs cs"
  by (intro conjI without_overall_filter components_filter)

lemma mixed_join:
  "inner_join mixed_obs mixed_tracts =
     [(\<lparr> obs_tract_id = ''36061000100'', observed_at = 0, temperature_f = 70 \<rparr>, demo_tract),
      (\<lparr> obs_tract_id = ''36061014300'', observed_at = 28800000000, temperature_f = 75 \<rparr>, park_tract)]"
  by (simp add: inner_join_def mixed_obs_def mixed_tracts_def demo_tract_def park_tract_def)

lemma mixed_join_residential:
  "inner_join mixed_obs (residential_tracts mixed_tracts) =
     [(\<lparr> obs_tract_id = ''36061000100'', observed_at = 0, temperature_f = 70 \<rparr>, demo_tract)]"
  by (simp add: inner_join_def mixed_obs_def mixed_tracts_def residential_tracts_def
        demo_tract_def park_tract_def)

lemma mixed_latest: "latest_time mixed_obs mixed_tracts = Some 0"
  by (simp add: latest_time_def residential_rows_def mixed_join)
     (simp add: residential_def demo_tract_def park_tract_def like_36061_def sql_MAX_def)

lemma mixed_latest_residential: "latest_time mixed_obs (residential_tracts mixed_tracts) = Some 0"
  by (simp add: components_filter mixed_latest)

lemma mixed_overall:
  "overall_statistics mixed_obs mixed_tracts =
     \<lparr> ov_total_observations = 2, ov_total_tracts = 2, ov_total_tracts_all = 2,
       ov_total_tracts_residential = 1, ov_total_elderly = 120,
       ov_data_start = Some 0, ov_data_end = Some 28800000000 \<rparr>"
  by (simp add: overall_statistics_def prefix_rows_def prefix_tracts_def mixed_join)
     (simp add: mixed_tracts_def demo_tract_def park_tract_def like_36061_def count_when_def
        sql_SUM_def intval_def sql_MIN_def sql_MAX_def)

lemma mixed_overall_residential:
  "overall_statistics mixed_obs (residential_tracts mixed_tracts) =
     \<lparr> ov_total_observations = 1, ov_total_tracts = 1, ov_total_tracts_all = 1,
       ov_total_tracts_residential = 1, ov_total_elderly = 120,
       ov_data_start = Some 0, ov_data_end = Some 0 \<rparr>"
  by (simp add: overall_statistics_def prefix_rows_def prefix_tracts_def mixed_join_residential)
     (simp add: mixed_tracts_def residential_tracts_def demo_tract_def park_tract_def like_36061_def
        count_when_def sql_SUM_def intval_def sql_MIN_def sql_MAX_def)

lemma mixed_latest_data:
  "latest_data mixed_obs mixed_tracts =
     [\<lparr> d_tract_id = ''36061000100'', d_tract_name = ''Tract 1'',
        d_temperature_f = 70, d_observed_at = 0, d_elderly_65plus = 120 \<rparr>,
      \<lparr> d_tract_id = ''36061014300'', d_tract_name = ''Park'',
        d_temperature_f = 75, d_observed_at = 28800000000, d_elderly_65plus = 0 \<rparr>]"
  by (simp add: latest_data_def latest_per_tract_def mixed_join)
     (simp add: demo_tract_def park_tract_def)

text \<open>
  Claim C6 as stated fails: the endpoint of the latest temperatures has no WHERE clause, so
  a park without elderly residents is in its data and in its statistics; and the key
  \<^verbatim>\<open>overall\<close> of the risk endpoint counts the park and its observation and takes the
  last date from it, as the response for the same store without the park shows.
\<close>

theorem C6_unfiltered_computations:
  "elderly_65plus park_tract = 0
   \<and> get_latest_temperatures mixed_obs mixed_tracts =
       Inr \<lparr> lr_last_update = 28800000000, data_count = 2,
             lr_statistics = \<lparr> st_min_temp = Some 70, st_max_temp = Some 75,
                               st_avg_temp = Some 72.5, st_total_tracts = 2 \<rparr>,
             data = [\<lparr> d_tract_id = ''36061000100'', d_tract_name = ''Tract 1'',
                      d_temperature_f = 70, d_observed_at = 0, d_elderly_65plus = 120 \<rparr>,
                    \<lparr> d_tract_id = ''36061014300'', d_tract_name = ''Park'',
                      d_temperature_f = 75, d_observed_at = 28800000000,
                      d_elderly_65plus = 0 \<rparr>] \<rparr>
   \<and> map_sum id rp_overall (get_risk_statistics mixed_obs mixed_tracts) =
       Inr \<lparr> ov_total_observations = 2, ov_total_tracts = 2, ov_total_tracts_all = 2,
             ov_total_tracts_residential = 1, ov_total_elderly = 120,
             ov_data_start = Some 0, ov_data_end = Some 28800000000 \<rparr>
   \<and> map_sum id rp_overall (get_risk_statistics mixed_obs (residential_tracts mixed_tracts)) =
       Inr \<lparr> ov_total_observations = 1, ov_total_tracts = 1, ov_total_tracts_all = 1,
             ov_total_tracts_residential = 1, ov_total_elderly = 120,
             ov_data_start = Some 0, ov_data_end = Some 0 \<rparr>"
proof -
  have a: "elderly_65plus park_tract = 0" by (simp add: park_tract_def)
  have lu: "last_update mixed_obs = Some 28800000000"
    by (simp add: last_update_def mixed_obs_def sql_MAX_def)
  have b: "get_latest_temperatures mixed_obs mixed_tracts =
       Inr \<lparr> lr_last_update = 28800000000, data_count = 2,
             lr_statistics = \<lparr> st_min_temp = Some 70, st_max_temp = Some 75,
                               st_avg_temp = Some 72.5, st_total_tracts = 2 \<rparr>,
             data = [\<lparr> d_tract_id = ''36061000100'', d_tract_name = ''Tract 1'',
                      d_temperature_f = 70, d_observed_at = 0, d_elderly_65plus = 120 \<rparr>,
                    \<lparr> d_tract_id = ''36061014300'', d_tract_name = ''Park'',
                      d_temperature_f = 75, d_observed_at = 28800000000,
                      d_elderly_65plus = 0 \<rparr>] \<rparr>"
    by (simp add: get_latest_temperatures_def lu mixed_latest_data latest_statistics_def
          array_sum_def Let_def)
  from get_risk_statistics_defined [OF mixed_latest]
  obtain rep where rep: "get_risk_statistics mixed_obs mixed_tracts = Inr rep"
    and ov: "rp_overall rep = overall_statistics mixed_obs mixed_tracts"
    by (elim exE conjE)
  have c: "map_sum id rp_overall (get_risk_statistics mixed_obs mixed_tracts) =
       Inr \<lparr> ov_total_observations = 2, ov_total_tracts = 2, ov_total_tracts_all = 2,
             ov_total_tracts_residential = 1, ov_total_elderly = 120,
             ov_data_start = Some 0, ov_data_end = Some 28800000000 \<rparr>"
    by (simp add: rep ov mixed_overall)
  from get_risk_statistics_defined [OF mixed_latest_residential]
  obtain rep' where rep': "get_risk_statistics mixed_obs (residential_tracts mixed_tracts) = Inr rep'"
    and ov': "rp_overall rep' = overall_statistics mixed_obs (residential_tracts mixed_tracts)"
    by (elim exE conjE)
  have d: "map_sum id rp_overall (get_risk_statistics mixed_obs (residential_tracts mixed_tracts)) =
       Inr \<lparr> ov_total_observations = 1, ov_total_tracts = 1, ov_total_tracts_all = 1,
             ov_total_tracts_residential = 1, ov_total_elderly = 120,
             ov_data_start = Some 0, ov_data_end = Some 0 \<rparr>"
    by (simp add: rep' ov' mixed_overall_residential)
  show ?thesis by (intro conjI a b c d)
qed

subsection \<open>Rounding in the response\<close>

lemma two_decimals_round2: "two_decimals (round2 x)"
  by (simp add: two_decimals_def round2_def)

text \<open>
  Claim C8, as amended.  Every scalar floating-point field of \<^verbatim>\<open>current_stats\<close>,
  \<^verbatim>\<open>historic_baseline\<close>, \<^verbatim>\<open>all_time_extremes\<close>, \<^verbatim>\<open>global_averages\<close>,
  \<^verbatim>\<open>hottest_tract\<close> and \<^verbatim>\<open>coldest_tract\<close> is a value rounded by \<^verbatim>\<open>round(x, 2)\<close> and has
  at most two decimal places; the global averages are the rounded baseline; the thresholds
  of two deviations and the all-time range are computed while the response is assembled;
  the array \<^verbatim>\<open>tracts\<close> is the result of the cumulative query, passed on as it is.
\<close>

theorem C8_scalar_fields_rounded:
  "(let R = json_response latestTime st hMean hStdDev allMax allMin allHottest allColdest cls
              cumHeat cumCold ov hottest coldest tractData
    in two_decimals (cs_mean_temp (rp_current_stats R))
     \<and> two_decimals (cs_std_dev (rp_current_stats R))
     \<and> two_decimals (cs_min_temp (rp_current_stats R))
     \<and> two_decimals (cs_max_temp (rp_current_stats R))
     \<and> two_decimals (cs_threshold_2sd_hot (rp_current_stats R))
     \<and> two_decimals (cs_threshold_2sd_cold (rp_current_stats R))
     \<and> two_decimals (hb_mean (rp_historic_baseline R))
     \<and> two_decimals (hb_stddev (rp_historic_baseline R))
     \<and> two_decimals (hb_threshold_2sd_hot (rp_historic_baseline R))
     \<and> two_decimals (hb_threshold_2sd_cold (rp_historic_baseline R))
     \<and> two_decimals (ate_max_temp (rp_all_time_extremes R))
     \<and> two_decimals (ate_min_temp (rp_all_time_extremes R))
     \<and> two_decimals (ate_range (rp_all_time_extremes R))
     \<and> two_decimals (ate_hottest_tract_temp (rp_all_time_extremes R))
     \<and> two_decimals (ate_coldest_tract_temp (rp_all_time_extremes R))
     \<and> two_decimals (ga_temperature (rp_global_averages R))
     \<and> two_decimals (ga_stddev_temp (rp_global_averages R))
     \<and> two_decimals (hottest_tract_temp R)
     \<and> two_decimals (coldest_tract_temp R)
     \<and> ga_temperature (rp_global_averages R) = round2 hMean
     \<and> ga_stddev_temp (rp_global_averages R) = round2 hStdDev
     \<and> hb_threshold_2sd_hot (rp_historic_baseline R) = round2 (hMean + 2 * hStdDev)
     \<and> hb_threshold_2sd_cold (rp_historic_baseline R) = round2 (hMean - 2 * hStdDev)
     \<and> ate_range (rp_all_time_extremes R) = round2 (floatval allMax - floatval allMin)
     \<and> tracts R = tractData)"
  by (simp add: Let_def json_response_def two_decimals_round2)

lemma demo_avg_temp: "avg_temp (cumulative_row m s demo_group) = Some 70.012"
  by (simp add: cumulative_row_def Let_def group_temps_def demo_group_def demo_history_def
        obs_at_def sql_AVG_def)

text \<open>
  Claim C8 as stated fails on the rows of \<^verbatim>\<open>tracts\<close>: for the demonstration store the
  average temperature of the tract is reported as 70.012, which \<^verbatim>\<open>round(x, 2)\<close> would
  turn into 70.01.
\<close>

theorem C8_tracts_not_rounded:
  "map_sum id (\<lambda>rep. map avg_temp (tracts rep)) (get_risk_statistics demo_history demo_tracts)
     = Inr [Some 70.012]
   \<and> \<not> two_decimals 70.012
   \<and> round2 70.012 = 70.01"
proof -
  from get_risk_statistics_defined [OF demo_latest]
  obtain rep where rep: "get_risk_statistics demo_history demo_tracts = Inr rep"
    and tr: "tracts rep = tractCumulativeData (historicMean demo_history demo_tracts)
               (historicStdDev demo_history demo_tracts) demo_history demo_tracts"
    by (elim exE conjE)
  have a: "map_sum id (\<lambda>rep. map avg_temp (tracts rep)) (get_risk_statistics demo_history demo_tracts)
     = Inr [Some 70.012]"
    by (simp add: rep tr tractCumulativeData_def demo_cumulative_groups demo_avg_temp)
  have b: "\<not> two_decimals 70.012"
    by (simp add: two_decimals_def)
  have c: "round2 70.012 = 70.01"
    by (simp add: round2_def)
  show ?thesis by (intro conjI a b c)
qed

end
